theory Spec2Isabelle
  imports Main "HOL-Library.AList" "HOL-Library.Word"
begin

unbundle bit_operations_syntax

section \<open>Task models of the Agent2Agent protocol (a2a_multiagent/models/task.py)\<close>

text \<open>
  The module declares seven pydantic models and one string enumeration. A model class has no
  code of its own: calling it validates the keyword arguments field by field, in the order of
  the declarations, and either returns the record or raises one ValidationError. The models
  below follow pydantic 2 in its default (lax) mode with the default configuration of
  \<^verbatim>\<open>BaseModel\<close>: unknown keyword arguments are ignored, a default is used unvalidated for a
  missing field, and an instance of the field's own model class is accepted as it is.
\<close>

subsection \<open>Python values\<close>

text \<open>
  A \<^verbatim>\<open>datetime\<close> is a point of the clock it was read from, in microseconds. The default
  factory \<^verbatim>\<open>datetime.now\<close> reads the clock; the reading is an argument of the constructor.
\<close>

datatype datetime = Datetime int

record TextPart =
  type :: string
  "text" :: string

record Message =
  role :: string
  parts :: "TextPart list"

record TaskStatus =
  state :: string
  timestamp :: datetime

record Task =
  id' :: string
  status :: TaskStatus
  history :: "Message list"

text \<open>
  A \<^verbatim>\<open>float\<close> is a finite binary fraction (\<open>Finite m e\<close> is \<open>m\<close> times two to the power
  \<open>e\<close>), one of the two infinities, or NaN.
\<close>

datatype pyfloat = Finite int int | PosInf | NegInf | NaN

text \<open>
  The values an argument can hold: \<^verbatim>\<open>None\<close>, \<^verbatim>\<open>bool\<close>, \<^verbatim>\<open>int\<close>, \<^verbatim>\<open>float\<close>, a finite
  \<^verbatim>\<open>Decimal\<close> (coefficient and power of ten), \<^verbatim>\<open>str\<close> (the bytes of its UTF-8 encoding),
  \<^verbatim>\<open>bytes\<close>, \<^verbatim>\<open>bytearray\<close>, \<^verbatim>\<open>datetime\<close>, \<^verbatim>\<open>list\<close>, \<^verbatim>\<open>tuple\<close>, \<^verbatim>\<open>dict\<close> (its items
  in insertion order, the keys distinct) and instances of the four models that occur as field
  types. Python has more types than these; a statement below that a value is refused names
  the types it is about.
\<close>

datatype pyval =
    PNone
  | PBool bool
  | PInt int
  | PFloat pyfloat
  | PDecimal int int
  | PStr string
  | PBytes string
  | PBytearray string
  | PDatetime datetime
  | PList "pyval list"
  | PTuple "pyval list"
  | PDict "(pyval \<times> pyval) list"
  | PTextPart TextPart
  | PMessage Message
  | PTaskStatus TaskStatus
  | PTask Task

record TaskIdParams =
  id' :: string
  metadata :: "(string \<times> pyval) list option"

record TaskQueryParams = TaskIdParams +
  historyLength :: "int option"

record TaskSendParams =
  id' :: string
  sessionId :: string
  message :: Message
  historyLength :: "int option"
  metadata :: "(string \<times> pyval) list option"

datatype error = ValidationError

text \<open>The name of the type of a value (\<^verbatim>\<open>type(v).__name__\<close>).\<close>

fun type_name :: "pyval \<Rightarrow> string" where
  "type_name PNone = ''NoneType''"
| "type_name (PBool b) = ''bool''"
| "type_name (PInt n) = ''int''"
| "type_name (PFloat f) = ''float''"
| "type_name (PDecimal m e) = ''Decimal''"
| "type_name (PStr s) = ''str''"
| "type_name (PBytes bs) = ''bytes''"
| "type_name (PBytearray bs) = ''bytearray''"
| "type_name (PDatetime d) = ''datetime''"
| "type_name (PList xs) = ''list''"
| "type_name (PTuple xs) = ''tuple''"
| "type_name (PDict items) = ''dict''"
| "type_name (PTextPart p) = ''TextPart''"
| "type_name (PMessage m) = ''Message''"
| "type_name (PTaskStatus s) = ''TaskStatus''"
| "type_name (PTask t) = ''Task''"

subsection \<open>Validation of the field types\<close>

text \<open>Keyword arguments, and the items of a dict given for a model: looked up by field name.\<close>

definition field :: "(pyval \<times> pyval) list \<Rightarrow> string \<Rightarrow> pyval option" where
  "field kw name = map_of kw (PStr name)"

text \<open>A call reports the errors of all its fields in one ValidationError, so the first
  field that fails decides the result.\<close>

definition and_then :: "error + 'a \<Rightarrow> ('a \<Rightarrow> error + 'b) \<Rightarrow> error + 'b" where
  "and_then r f = (case r of Inl e \<Rightarrow> Inl e | Inr x \<Rightarrow> f x)"

text \<open>A field with no default is required; a field with a default (or a default factory, whose
  result is passed in) takes it when the argument is missing.\<close>

definition required :: "(pyval \<Rightarrow> error + 'a) \<Rightarrow> pyval option \<Rightarrow> error + 'a" where
  "required validate arg = (case arg of None \<Rightarrow> Inl ValidationError | Some v \<Rightarrow> validate v)"

definition with_default :: "'a \<Rightarrow> (pyval \<Rightarrow> error + 'a) \<Rightarrow> pyval option \<Rightarrow> error + 'a" where
  "with_default d validate arg = (case arg of None \<Rightarrow> Inr d | Some v \<Rightarrow> validate v)"

text \<open>
  Well-formed UTF-8 (the byte ranges of the Unicode standard, table 3-7): the first argument
  lists the ranges of the continuation bytes still expected.
\<close>

fun utf8_tail :: "(nat \<times> nat) list \<Rightarrow> string \<Rightarrow> bool" where
  "utf8_tail [] [] = True"
| "utf8_tail (r # rs) [] = False"
| "utf8_tail ((lo, hi) # rs) (c # cs) = (lo \<le> of_char c \<and> of_char c \<le> hi \<and> utf8_tail rs cs)"
| "utf8_tail [] (c # cs) =
     (let b = of_char c :: nat in
      if b < 0x80 then utf8_tail [] cs
      else if 0xC2 \<le> b \<and> b \<le> 0xDF then utf8_tail [(0x80, 0xBF)] cs
      else if b = 0xE0 then utf8_tail [(0xA0, 0xBF), (0x80, 0xBF)] cs
      else if (0xE1 \<le> b \<and> b \<le> 0xEC) \<or> b = 0xEE \<or> b = 0xEF
        then utf8_tail [(0x80, 0xBF), (0x80, 0xBF)] cs
      else if b = 0xED then utf8_tail [(0x80, 0x9F), (0x80, 0xBF)] cs
      else if b = 0xF0 then utf8_tail [(0x90, 0xBF), (0x80, 0xBF), (0x80, 0xBF)] cs
      else if 0xF1 \<le> b \<and> b \<le> 0xF3 then utf8_tail [(0x80, 0xBF), (0x80, 0xBF), (0x80, 0xBF)] cs
      else if b = 0xF4 then utf8_tail [(0x80, 0x8F), (0x80, 0xBF), (0x80, 0xBF)] cs
      else False)"

definition from_utf8 :: "string \<Rightarrow> error + string" where
  "from_utf8 bs = (if utf8_tail [] bs then Inr bs else Inl ValidationError)"

text \<open>
  \<^verbatim>\<open>str\<close>: a str is taken as it is. In lax mode bytes and a bytearray are accepted as well
  and decoded as UTF-8 (an error when they are not well-formed). Numbers are not converted to
  text, and no other value listed above is a string.
\<close>

fun validate_str :: "pyval \<Rightarrow> error + string" where
  "validate_str (PStr s) = Inr s"
| "validate_str (PBytes bs) = from_utf8 bs"
| "validate_str (PBytearray bs) = from_utf8 bs"
| "validate_str _ = Inl ValidationError"

text \<open>\<^verbatim>\<open>Literal[...]\<close> of strings: the argument is a str equal to one of the literals.\<close>

fun validate_literal :: "string list \<Rightarrow> pyval \<Rightarrow> error + string" where
  "validate_literal expected (PStr s) = (if s \<in> set expected then Inr s else Inl ValidationError)"
| "validate_literal expected _ = Inl ValidationError"

text \<open>
  Number text, as lax mode reads it for an \<^verbatim>\<open>int\<close>. Two parts of the library's parser are
  modelled: text of ASCII letters only, and the empty text, is no number; and a decimal numeral
  of at most 18 digits with no leading zero, alone or after a minus sign, is the number it
  writes. How the library reads any other text (a plus sign, surrounding blanks, underscores,
  leading zeros, a fraction of zeros, longer numerals) is not modelled: there the result is
  that of the argument \<open>lax_int\<close>, which stands for the library.
\<close>

definition ascii_letter :: "char \<Rightarrow> bool" where
  "ascii_letter c = (let n = of_char c :: int in (65 \<le> n \<and> n \<le> 90) \<or> (97 \<le> n \<and> n \<le> 122))"

fun decimal_digits :: "int \<Rightarrow> string \<Rightarrow> int option" where
  "decimal_digits acc [] = Some acc"
| "decimal_digits acc (c # cs) =
     (let d = of_char c :: int in
      if 48 \<le> d \<and> d \<le> 57 then decimal_digits (10 * acc + (d - 48)) cs else None)"

definition numeral_value :: "string \<Rightarrow> int option" where
  "numeral_value s =
     (if s = [] \<or> 18 < length s \<or> (hd s = CHR ''0'' \<and> s \<noteq> ''0'') then None
      else decimal_digits 0 s)"

definition str_as_int :: "(pyval \<Rightarrow> int option) \<Rightarrow> string \<Rightarrow> int option" where
  "str_as_int lax_int s =
     (if list_all ascii_letter s then None
      else case numeral_value s of
        Some n \<Rightarrow> Some n
      | None \<Rightarrow>
          (case s of
             c # ds \<Rightarrow>
               (case numeral_value ds of
                  Some n \<Rightarrow> if c = CHR ''-'' \<and> 0 < n then Some (- n) else lax_int (PStr s)
                | None \<Rightarrow> lax_int (PStr s))
           | [] \<Rightarrow> lax_int (PStr s)))"

text \<open>
  A float as an \<^verbatim>\<open>int\<close>: a float that is not finite, or has a fractional part, is refused;
  a whole float up to two to the power 53 in size is the integer it equals. Larger whole
  floats are left to \<open>lax_int\<close>.
\<close>

fun float_integer :: "pyfloat \<Rightarrow> int option" where
  "float_integer (Finite m e) =
     (if 0 \<le> e then Some (m * 2 ^ nat e)
      else if m mod 2 ^ nat (- e) = 0 then Some (m div 2 ^ nat (- e))
      else None)"
| "float_integer f = None"

definition of_lax :: "'a option \<Rightarrow> error + 'a" where
  "of_lax r = (case r of None \<Rightarrow> Inl ValidationError | Some x \<Rightarrow> Inr x)"

text \<open>
  \<^verbatim>\<open>int\<close>: an int is taken as it is. In lax mode a bool is taken as 0 or 1, a whole float
  as its integer, and a str that reads as a number as that number. The conversions of bytes,
  of a bytearray and of a \<^verbatim>\<open>Decimal\<close> are left to \<open>lax_int\<close>. No other value listed
  above is an integer.
\<close>

fun validate_int :: "(pyval \<Rightarrow> int option) \<Rightarrow> pyval \<Rightarrow> error + int" where
  "validate_int lax_int (PInt n) = Inr n"
| "validate_int lax_int (PBool b) = Inr (if b then 1 else 0)"
| "validate_int lax_int (PStr s) = of_lax (str_as_int lax_int s)"
| "validate_int lax_int (PBytes bs) = of_lax (lax_int (PBytes bs))"
| "validate_int lax_int (PBytearray bs) = of_lax (lax_int (PBytearray bs))"
| "validate_int lax_int (PFloat f) =
     (case float_integer f of
        None \<Rightarrow> Inl ValidationError
      | Some n \<Rightarrow> if \<bar>n\<bar> \<le> 2 ^ 53 then Inr n else of_lax (lax_int (PFloat f)))"
| "validate_int lax_int (PDecimal m e) = of_lax (lax_int (PDecimal m e))"
| "validate_int lax_int _ = Inl ValidationError"

text \<open>
  \<^verbatim>\<open>datetime\<close>: a datetime is taken as it is. Numbers and text are converted by the library
  (Unix time, ISO 8601); that conversion is not modelled, its result is that of the argument
  \<open>lax_datetime\<close>. No other value listed above is a datetime.
\<close>

fun validate_datetime :: "(pyval \<Rightarrow> datetime option) \<Rightarrow> pyval \<Rightarrow> error + datetime" where
  "validate_datetime lax_datetime (PDatetime d) = Inr d"
| "validate_datetime lax_datetime PNone = Inl ValidationError"
| "validate_datetime lax_datetime (PList xs) = Inl ValidationError"
| "validate_datetime lax_datetime (PTuple xs) = Inl ValidationError"
| "validate_datetime lax_datetime (PDict items) = Inl ValidationError"
| "validate_datetime lax_datetime (PTextPart p) = Inl ValidationError"
| "validate_datetime lax_datetime (PMessage m) = Inl ValidationError"
| "validate_datetime lax_datetime (PTaskStatus s) = Inl ValidationError"
| "validate_datetime lax_datetime (PTask t) = Inl ValidationError"
| "validate_datetime lax_datetime v = of_lax (lax_datetime v)"

text \<open>\<^verbatim>\<open>T | None\<close>: \<^verbatim>\<open>None\<close> stays \<^verbatim>\<open>None\<close>, any other value is validated as a \<^verbatim>\<open>T\<close>.\<close>

fun validate_optional :: "(pyval \<Rightarrow> error + 'a) \<Rightarrow> pyval \<Rightarrow> error + 'a option" where
  "validate_optional validate PNone = Inr None"
| "validate_optional validate v = and_then (validate v) (\<lambda>x. Inr (Some x))"

text \<open>\<^verbatim>\<open>List[T]\<close>: a list, or in lax mode a tuple, whose elements all validate as \<^verbatim>\<open>T\<close>,
  kept in order.\<close>

fun validate_all :: "(pyval \<Rightarrow> error + 'a) \<Rightarrow> pyval list \<Rightarrow> error + 'a list" where
  "validate_all validate [] = Inr []"
| "validate_all validate (x # xs) =
     and_then (validate x) (\<lambda>y. and_then (validate_all validate xs) (\<lambda>ys. Inr (y # ys)))"

fun validate_list :: "(pyval \<Rightarrow> error + 'a) \<Rightarrow> pyval \<Rightarrow> error + 'a list" where
  "validate_list validate (PList xs) = validate_all validate xs"
| "validate_list validate (PTuple xs) = validate_all validate xs"
| "validate_list validate _ = Inl ValidationError"

text \<open>\<^verbatim>\<open>dict[str, Any]\<close>: a dict whose keys validate as \<^verbatim>\<open>str\<close>; a later item replaces the value
  of an equal key.\<close>

fun validate_items :: "(pyval \<times> pyval) list \<Rightarrow> (string \<times> pyval) list \<Rightarrow> error + (string \<times> pyval) list" where
  "validate_items [] out = Inr out"
| "validate_items ((k, v) # items) out =
     and_then (validate_str k) (\<lambda>s. validate_items items (AList.update s v out))"

fun validate_dict :: "pyval \<Rightarrow> error + (string \<times> pyval) list" where
  "validate_dict (PDict items) = validate_items items []"
| "validate_dict _ = Inl ValidationError"

subsection \<open>The models\<close>

text \<open>Each \<open>_init\<close> is the call of the class on keyword arguments; each \<open>validate_\<close> is the
  validation of a field whose type is the class.\<close>

definition TextPart_init :: "(pyval \<times> pyval) list \<Rightarrow> error + TextPart" where
  "TextPart_init kw =
     and_then (with_default ''text'' (validate_literal [''text'']) (field kw ''type'')) (\<lambda>ty.
     and_then (required validate_str (field kw ''text'')) (\<lambda>tx.
     Inr \<lparr>type = ty, text = tx\<rparr>))"

fun validate_TextPart :: "pyval \<Rightarrow> error + TextPart" where
  "validate_TextPart (PTextPart p) = Inr p"
| "validate_TextPart (PDict items) = TextPart_init items"
| "validate_TextPart _ = Inl ValidationError"

text \<open>\<^verbatim>\<open>Part = TextPart\<close>\<close>

abbreviation validate_Part :: "pyval \<Rightarrow> error + TextPart" where
  "validate_Part \<equiv> validate_TextPart"

definition Message_init :: "(pyval \<times> pyval) list \<Rightarrow> error + Message" where
  "Message_init kw =
     and_then (required (validate_literal [''user'', ''agent'']) (field kw ''role'')) (\<lambda>r.
     and_then (required (validate_list validate_Part) (field kw ''parts'')) (\<lambda>ps.
     Inr \<lparr>role = r, parts = ps\<rparr>))"

fun validate_Message :: "pyval \<Rightarrow> error + Message" where
  "validate_Message (PMessage m) = Inr m"
| "validate_Message (PDict items) = Message_init items"
| "validate_Message _ = Inl ValidationError"

definition TaskStatus_init ::
  "(pyval \<Rightarrow> datetime option) \<Rightarrow> datetime \<Rightarrow> (pyval \<times> pyval) list \<Rightarrow> error + TaskStatus" where
  "TaskStatus_init lax_datetime now kw =
     and_then (required validate_str (field kw ''state'')) (\<lambda>s.
     and_then (with_default now (validate_datetime lax_datetime) (field kw ''timestamp'')) (\<lambda>ts.
     Inr \<lparr>state = s, timestamp = ts\<rparr>))"

fun validate_TaskStatus ::
  "(pyval \<Rightarrow> datetime option) \<Rightarrow> datetime \<Rightarrow> pyval \<Rightarrow> error + TaskStatus" where
  "validate_TaskStatus lax_datetime now (PTaskStatus s) = Inr s"
| "validate_TaskStatus lax_datetime now (PDict items) = TaskStatus_init lax_datetime now items"
| "validate_TaskStatus lax_datetime now _ = Inl ValidationError"

definition Task_init ::
  "(pyval \<Rightarrow> datetime option) \<Rightarrow> datetime \<Rightarrow> (pyval \<times> pyval) list \<Rightarrow> error + Task" where
  "Task_init lax_datetime now kw =
     and_then (required validate_str (field kw ''id'')) (\<lambda>i.
     and_then (required (validate_TaskStatus lax_datetime now) (field kw ''status'')) (\<lambda>s.
     and_then (required (validate_list validate_Message) (field kw ''history'')) (\<lambda>h.
     Inr \<lparr>Task.id' = i, status = s, history = h\<rparr>)))"

fun validate_Task :: "(pyval \<Rightarrow> datetime option) \<Rightarrow> datetime \<Rightarrow> pyval \<Rightarrow> error + Task" where
  "validate_Task lax_datetime now (PTask t) = Inr t"
| "validate_Task lax_datetime now (PDict items) = Task_init lax_datetime now items"
| "validate_Task lax_datetime now _ = Inl ValidationError"

definition TaskIdParams_init :: "(pyval \<times> pyval) list \<Rightarrow> error + TaskIdParams" where
  "TaskIdParams_init kw =
     and_then (required validate_str (field kw ''id'')) (\<lambda>i.
     and_then (with_default None (validate_optional validate_dict) (field kw ''metadata'')) (\<lambda>md.
     Inr \<lparr>TaskIdParams.id' = i, TaskIdParams.metadata = md\<rparr>))"


text \<open>
  \<^verbatim>\<open>uuid4().hex\<close>, the default factory of \<^verbatim>\<open>sessionId\<close>: sixteen random bytes read as a
  128-bit number, the two variant bits set to 10 and the four version bits to 4, printed as
  32 lower-case hexadecimal digits (\<^verbatim>\<open>'%032x'\<close>). The random bytes are an argument.
\<close>

definition uuid4 :: "128 word \<Rightarrow> 128 word" where
  "uuid4 random =
     (let i = random AND NOT (push_bit 48 0xc000);
          i = i OR push_bit 48 0x8000;
          i = i AND NOT (push_bit 64 0xf000);
          i = i OR push_bit 76 4
      in i)"

definition hex_digit :: "nat \<Rightarrow> char" where
  "hex_digit d = ''0123456789abcdef'' ! d"

definition hex :: "128 word \<Rightarrow> string" where
  "hex i = map (\<lambda>k. hex_digit (unat (drop_bit (4 * k) i AND 0xf))) (rev [0..<32])"

definition TaskSendParams_init ::
  "(pyval \<Rightarrow> int option) \<Rightarrow> 128 word \<Rightarrow> (pyval \<times> pyval) list \<Rightarrow> error + TaskSendParams" where
  "TaskSendParams_init lax_int random kw =
     and_then (required validate_str (field kw ''id'')) (\<lambda>i.
     and_then (with_default (hex (uuid4 random)) validate_str (field kw ''sessionId'')) (\<lambda>sid.
     and_then (required validate_Message (field kw ''message'')) (\<lambda>m.
     and_then (with_default None (validate_optional (validate_int lax_int))
                 (field kw ''historyLength'')) (\<lambda>hl.
     and_then (with_default None (validate_optional validate_dict) (field kw ''metadata'')) (\<lambda>md.
     Inr \<lparr>TaskSendParams.id' = i, sessionId = sid, message = m,
          TaskSendParams.historyLength = hl, TaskSendParams.metadata = md\<rparr>)))))"

subsection \<open>The enumeration of task states\<close>

datatype TaskState = SUBMITTED | WORKING | INPUT_REQUIRED | COMPLETED | CANCELED | FAILED | UNKNOWN

fun TaskState_value :: "TaskState \<Rightarrow> string" where
  "TaskState_value SUBMITTED = ''submitted''"
| "TaskState_value WORKING = ''working''"
| "TaskState_value INPUT_REQUIRED = ''input-required''"
| "TaskState_value COMPLETED = ''completed''"
| "TaskState_value CANCELED = ''canceled''"
| "TaskState_value FAILED = ''failed''"
| "TaskState_value UNKNOWN = ''unknown''"

text \<open>The members in the order of their definition, as iterating the class yields them.\<close>

definition TaskState_members :: "TaskState list" where
  "TaskState_members = [SUBMITTED, WORKING, INPUT_REQUIRED, COMPLETED, CANCELED, FAILED, UNKNOWN]"

subsection \<open>The structural representation of a model (\<^verbatim>\<open>model_dump\<close>)\<close>

text \<open>A model is dumped as the dict of its fields, in the order of their declaration; a nested
  model is dumped in turn, a list element by element, and a datetime is kept as it is.\<close>

definition TextPart_model_dump :: "TextPart \<Rightarrow> pyval" where
  "TextPart_model_dump p = PDict [(PStr ''type'', PStr (type p)), (PStr ''text'', PStr (text p))]"

definition Message_model_dump :: "Message \<Rightarrow> pyval" where
  "Message_model_dump m =
     PDict [(PStr ''role'', PStr (role m)),
            (PStr ''parts'', PList (map TextPart_model_dump (parts m)))]"

definition TaskStatus_model_dump :: "TaskStatus \<Rightarrow> pyval" where
  "TaskStatus_model_dump s =
     PDict [(PStr ''state'', PStr (state s)), (PStr ''timestamp'', PDatetime (timestamp s))]"

definition Task_model_dump :: "Task \<Rightarrow> pyval" where
  "Task_model_dump t =
     PDict [(PStr ''id'', PStr (Task.id' t)),
            (PStr ''status'', TaskStatus_model_dump (status t)),
            (PStr ''history'', PList (map Message_model_dump (history t)))]"

text \<open>A structural value: built of dicts, lists, tuples and values that are no models.\<close>

fun structural :: "pyval \<Rightarrow> bool" where
  "structural (PList xs) = (\<forall>x\<in>set xs. structural x)"
| "structural (PTuple xs) = (\<forall>x\<in>set xs. structural x)"
| "structural (PDict items) = (\<forall>kv\<in>set items. structural (fst kv) \<and> structural (snd kv))"
| "structural (PTextPart p) = False"
| "structural (PMessage m) = False"
| "structural (PTaskStatus s) = False"
| "structural (PTask t) = False"
| "structural v = True"

text \<open>The constraints the field types put on a record: what validation has checked of a
  record it built from plain values.\<close>

definition TextPart_valid :: "TextPart \<Rightarrow> bool" where
  "TextPart_valid p = (type p = ''text'')"

definition Message_valid :: "Message \<Rightarrow> bool" where
  "Message_valid m = (role m \<in> {''user'', ''agent''} \<and> list_all TextPart_valid (parts m))"

definition Task_valid :: "Task \<Rightarrow> bool" where
  "Task_valid t = list_all Message_valid (history t)"

section \<open>Properties\<close>

subsection \<open>Auxiliary facts\<close>

lemma and_then_Inl [simp]: "and_then (Inl e) f = Inl e"
  by (simp add: and_then_def)

lemma and_then_Inr [simp]: "and_then (Inr x) f = f x"
  by (simp add: and_then_def)

lemma error_eq [simp]: "(e :: error) = ValidationError"
  by (cases e) simp

lemma validate_all_Inr:
  "(\<forall>x\<in>set xs. \<not> isl (validate x)) \<Longrightarrow> validate_all validate xs = Inr (map (projr \<circ> validate) xs)"
proof (induction xs)
  case Nil
  then show ?case by simp
next
  case (Cons x xs)
  then obtain y where "validate x = Inr y" by (cases "validate x") auto
  with Cons show ?case by simp
qed

lemma validate_all_Inl:
  "x \<in> set xs \<Longrightarrow> isl (validate x) \<Longrightarrow> validate_all validate xs = Inl ValidationError"
proof (induction xs)
  case Nil
  then show ?case by simp
next
  case (Cons a xs)
  show ?case
  proof (cases "validate a")
    case (Inl e)
    then show ?thesis by simp
  next
    case (Inr y)
    with Cons have "validate_all validate xs = Inl ValidationError" by auto
    with Inr show ?thesis by simp
  qed
qed

lemma literal_Inl:
  "v \<notin> PStr ` set expected \<Longrightarrow> validate_literal expected v = Inl ValidationError"
  by (cases v) auto

lemma of_lax_simps [simp]: "of_lax None = Inl ValidationError" "of_lax (Some x) = Inr x"
  by (simp_all add: of_lax_def)

lemma str_refused:
  "type_name v \<in> {''NoneType'', ''bool'', ''int'', ''float'', ''Decimal'', ''datetime'', ''list'',
      ''tuple'', ''dict'', ''TextPart'', ''Message'', ''TaskStatus'', ''Task''}
     \<Longrightarrow> validate_str v = Inl ValidationError"
  by (cases v) simp_all







subsection \<open>TextPart\<close>

text \<open>
  Claim C5. For every string \<open>s\<close>, \<^verbatim>\<open>TextPart(text=s)\<close> is constructed, and the type
  discriminator of the record is \<^verbatim>\<open>"text"\<close>.
\<close>

theorem TextPart_text_only:
  "TextPart_init [(PStr ''text'', PStr s)] = Inr \<lparr>type = ''text'', text = s\<rparr>"
  by (simp add: TextPart_init_def required_def with_default_def field_def)

text \<open>
  Claim C10. A \<^verbatim>\<open>TextPart\<close> given an explicit \<^verbatim>\<open>type\<close> other than the str \<^verbatim>\<open>"text"\<close> is
  refused with ValidationError, whatever the other arguments are; so is
  \<^verbatim>\<open>TextPart(type="image", text="x")\<close>.
\<close>

theorem TextPart_type_literal:
  "v \<noteq> PStr ''text'' \<Longrightarrow> TextPart_init ((PStr ''type'', v) # kw) = Inl ValidationError"
  by (cases v) (simp_all add: TextPart_init_def with_default_def field_def)

theorem TextPart_type_literal_witness:
  "TextPart_init [(PStr ''type'', PStr ''image''), (PStr ''text'', PStr ''x'')] = Inl ValidationError"
  using TextPart_type_literal [of "PStr ''image''" "[(PStr ''text'', PStr ''x'')]"] by simp

subsection \<open>Message\<close>

lemma Message_role:
  assumes "field kw ''role'' \<notin> {Some (PStr ''user''), Some (PStr ''agent'')}"
  shows "Message_init kw = Inl ValidationError"
proof (cases "field kw ''role''")
  case None
  then show ?thesis by (simp add: Message_init_def required_def)
next
  case (Some r)
  with assms have "r \<notin> PStr ` set [''user'', ''agent'']" by auto
  then have "validate_literal [''user'', ''agent''] r = Inl ValidationError"
    by (rule literal_Inl)
  with Some show ?thesis by (simp add: Message_init_def required_def)
qed

lemma Message_parts:
  assumes "field kw ''parts'' = Some (PList xs)" and "x \<in> set xs" and "isl (validate_Part x)"
  shows "Message_init kw = Inl ValidationError"
proof -
  have "validate_all validate_Part xs = Inl ValidationError"
    using assms(2,3) by (rule validate_all_Inl)
  then have "required (validate_list validate_Part) (field kw ''parts'') = Inl ValidationError"
    using assms(1) by (simp add: required_def)
  then show ?thesis
    by (cases "required (validate_literal [''user'', ''agent'']) (field kw ''role'')")
       (simp_all add: Message_init_def)
qed

lemma Message_ok:
  assumes "s \<in> {''user'', ''agent''}" and "field kw ''role'' = Some (PStr s)"
    and "field kw ''parts'' = Some (PList xs)" and "\<forall>x\<in>set xs. \<not> isl (validate_Part x)"
  shows "Message_init kw = Inr \<lparr>role = s, parts = map (projr \<circ> validate_Part) xs\<rparr>"
  using assms(1-3) validate_all_Inr [OF assms(4)]
  by (auto simp add: Message_init_def required_def)

text \<open>
  Claim C1. Constructing a \<^verbatim>\<open>Message\<close> fails with ValidationError when the role is not one of
  the strs \<^verbatim>\<open>"user"\<close> and \<^verbatim>\<open>"agent"\<close> (or is missing), and when the list given for
  \<^verbatim>\<open>parts\<close> has an element that does not validate as a \<^verbatim>\<open>Part\<close>; in particular
  \<^verbatim>\<open>Message(role="system", parts=[])\<close> fails. With a role of the two and a list of elements
  that all validate as a \<^verbatim>\<open>Part\<close> (the empty list too) the message is constructed, with
  that role and the validated parts in their order.
\<close>

theorem Message_construction:
  "(field kw ''role'' \<notin> {Some (PStr ''user''), Some (PStr ''agent'')}
      \<longrightarrow> Message_init kw = Inl ValidationError)
   \<and> (field kw ''parts'' = Some (PList xs) \<and> (\<exists>x\<in>set xs. isl (validate_Part x))
      \<longrightarrow> Message_init kw = Inl ValidationError)
   \<and> Message_init [(PStr ''role'', PStr ''system''), (PStr ''parts'', PList [])] = Inl ValidationError
   \<and> (s \<in> {''user'', ''agent''} \<and> field kw ''role'' = Some (PStr s)
        \<and> field kw ''parts'' = Some (PList xs) \<and> (\<forall>x\<in>set xs. \<not> isl (validate_Part x))
      \<longrightarrow> Message_init kw = Inr \<lparr>role = s, parts = map (projr \<circ> validate_Part) xs\<rparr>)"
proof (intro conjI impI)
  assume "field kw ''role'' \<notin> {Some (PStr ''user''), Some (PStr ''agent'')}"
  then show "Message_init kw = Inl ValidationError" by (rule Message_role)
next
  assume "field kw ''parts'' = Some (PList xs) \<and> (\<exists>x\<in>set xs. isl (validate_Part x))"
  then show "Message_init kw = Inl ValidationError" by (blast intro: Message_parts)
next
  show "Message_init [(PStr ''role'', PStr ''system''), (PStr ''parts'', PList [])] = Inl ValidationError"
    by (rule Message_role) (simp add: field_def)
next
  assume "s \<in> {''user'', ''agent''} \<and> field kw ''role'' = Some (PStr s)
        \<and> field kw ''parts'' = Some (PList xs) \<and> (\<forall>x\<in>set xs. \<not> isl (validate_Part x))"
  then show "Message_init kw = Inr \<lparr>role = s, parts = map (projr \<circ> validate_Part) xs\<rparr>"
    by (blast intro: Message_ok)
qed

theorem Message_construction_witness:
  "Message_init [(PStr ''role'', PStr ''robot''), (PStr ''parts'', PList [])] = Inl ValidationError
   \<and> Message_init [(PStr ''role'', PStr ''user''), (PStr ''parts'', PList [PInt 3])] = Inl ValidationError
   \<and> Message_init [(PStr ''role'', PStr ''agent''), (PStr ''parts'', PList [])]
       = Inr \<lparr>role = ''agent'', parts = []\<rparr>
   \<and> Message_init [(PStr ''role'', PStr ''user''),
                    (PStr ''parts'', PList [PDict [(PStr ''text'', PStr ''hello'')],
                                            PTextPart \<lparr>type = ''text'', text = ''again''\<rparr>])]
       = Inr \<lparr>role = ''user'', parts = [\<lparr>type = ''text'', text = ''hello''\<rparr>,
                                         \<lparr>type = ''text'', text = ''again''\<rparr>]\<rparr>"
proof (intro conjI)
  show "Message_init [(PStr ''role'', PStr ''robot''), (PStr ''parts'', PList [])] = Inl ValidationError"
    using Message_construction [of "[(PStr ''role'', PStr ''robot''), (PStr ''parts'', PList [])]"]
    by (simp add: field_def)
  show "Message_init [(PStr ''role'', PStr ''user''), (PStr ''parts'', PList [PInt 3])] = Inl ValidationError"
    using Message_construction
      [of "[(PStr ''role'', PStr ''user''), (PStr ''parts'', PList [PInt 3])]" "[PInt 3]"]
    by (simp add: field_def)
  show "Message_init [(PStr ''role'', PStr ''agent''), (PStr ''parts'', PList [])]
       = Inr \<lparr>role = ''agent'', parts = []\<rparr>"
    using Message_construction
      [of "[(PStr ''role'', PStr ''agent''), (PStr ''parts'', PList [])]" "[]" "''agent''"]
    by (simp add: field_def)
  show "Message_init [(PStr ''role'', PStr ''user''),
                    (PStr ''parts'', PList [PDict [(PStr ''text'', PStr ''hello'')],
                                            PTextPart \<lparr>type = ''text'', text = ''again''\<rparr>])]
       = Inr \<lparr>role = ''user'', parts = [\<lparr>type = ''text'', text = ''hello''\<rparr>,
                                         \<lparr>type = ''text'', text = ''again''\<rparr>]\<rparr>"
    using Message_construction
      [of "[(PStr ''role'', PStr ''user''),
            (PStr ''parts'', PList [PDict [(PStr ''text'', PStr ''hello'')],
                                    PTextPart \<lparr>type = ''text'', text = ''again''\<rparr>])]"
          "[PDict [(PStr ''text'', PStr ''hello'')], PTextPart \<lparr>type = ''text'', text = ''again''\<rparr>]"
          "''user''"]
    by (simp add: field_def TextPart_init_def required_def with_default_def)
qed

subsection \<open>TaskStatus\<close>

lemma TaskStatus_state_fails:
  assumes "required validate_str (field kw ''state'') = Inl ValidationError"
  shows "TaskStatus_init lax_datetime now kw = Inl ValidationError"
  using assms by (simp add: TaskStatus_init_def)

text \<open>
  Claim C2, as the code has it. \<^verbatim>\<open>TaskStatus(state=s)\<close> is constructed for every str \<open>s\<close>,
  member of \<^verbatim>\<open>TaskState\<close> or not, and its timestamp is then the reading of the clock. It is
  constructed for bytes and for a bytearray as well, when they are well-formed UTF-8, with the
  decoded text as the state. It fails with ValidationError when the state is \<^verbatim>\<open>None\<close>, a
  bool, an int, a float, a \<^verbatim>\<open>Decimal\<close>, a datetime, a list, a tuple, a dict or an instance of
  one of the models. Whenever the timestamp is left out of a construction that succeeds, the
  timestamp of the record is the reading of the clock.
\<close>

theorem TaskStatus_construction:
  "TaskStatus_init lax_datetime now [(PStr ''state'', PStr s)] = Inr \<lparr>state = s, timestamp = now\<rparr>
   \<and> TaskStatus_init lax_datetime now [(PStr ''state'', PBytes bs)]
       = (if utf8_tail [] bs then Inr \<lparr>state = bs, timestamp = now\<rparr> else Inl ValidationError)
   \<and> TaskStatus_init lax_datetime now [(PStr ''state'', PBytearray bs)]
       = (if utf8_tail [] bs then Inr \<lparr>state = bs, timestamp = now\<rparr> else Inl ValidationError)
   \<and> (field kw ''state'' = Some v
        \<and> type_name v \<in> {''NoneType'', ''bool'', ''int'', ''float'', ''Decimal'', ''datetime'',
              ''list'', ''tuple'', ''dict'', ''TextPart'', ''Message'', ''TaskStatus'', ''Task''}
        \<longrightarrow> TaskStatus_init lax_datetime now kw = Inl ValidationError)
   \<and> (field kw ''timestamp'' = None \<and> TaskStatus_init lax_datetime now kw = Inr st
        \<longrightarrow> timestamp st = now)"
proof (intro conjI impI)
  show "TaskStatus_init lax_datetime now [(PStr ''state'', PStr s)] = Inr \<lparr>state = s, timestamp = now\<rparr>"
    by (simp add: TaskStatus_init_def required_def with_default_def field_def)
next
  show "TaskStatus_init lax_datetime now [(PStr ''state'', PBytes bs)]
       = (if utf8_tail [] bs then Inr \<lparr>state = bs, timestamp = now\<rparr> else Inl ValidationError)"
    by (simp add: TaskStatus_init_def required_def with_default_def field_def from_utf8_def)
next
  show "TaskStatus_init lax_datetime now [(PStr ''state'', PBytearray bs)]
       = (if utf8_tail [] bs then Inr \<lparr>state = bs, timestamp = now\<rparr> else Inl ValidationError)"
    by (simp add: TaskStatus_init_def required_def with_default_def field_def from_utf8_def)
next
  assume a: "field kw ''state'' = Some v
        \<and> type_name v \<in> {''NoneType'', ''bool'', ''int'', ''float'', ''Decimal'', ''datetime'',
              ''list'', ''tuple'', ''dict'', ''TextPart'', ''Message'', ''TaskStatus'', ''Task''}"
  then have "validate_str v = Inl ValidationError" by (intro str_refused) simp
  with a have "required validate_str (field kw ''state'') = Inl ValidationError"
    by (simp add: required_def)
  then show "TaskStatus_init lax_datetime now kw = Inl ValidationError"
    by (rule TaskStatus_state_fails)
next
  assume a: "field kw ''timestamp'' = None \<and> TaskStatus_init lax_datetime now kw = Inr st"
  show "timestamp st = now"
  proof (cases "required validate_str (field kw ''state'')")
    case (Inl e)
    with a show ?thesis by (simp add: TaskStatus_init_def)
  next
    case (Inr x)
    with a show ?thesis by (auto simp add: TaskStatus_init_def with_default_def)
  qed
qed

theorem TaskStatus_construction_witness:
  "TaskStatus_init (\<lambda>v. None) (Datetime 7) [(PStr ''state'', PInt 3)] = Inl ValidationError
   \<and> TaskStatus_init (\<lambda>v. None) (Datetime 7) [(PStr ''state'', PFloat (Finite 3 0))]
       = Inl ValidationError
   \<and> TaskStatus_init (\<lambda>v. None) (Datetime 7) [(PStr ''state'', PStr ''no-such-state'')]
       = Inr \<lparr>state = ''no-such-state'', timestamp = Datetime 7\<rparr>
   \<and> TaskStatus_init (\<lambda>v. None) (Datetime 7) [(PStr ''state'', PBytearray ''working'')]
       = Inr \<lparr>state = ''working'', timestamp = Datetime 7\<rparr>
   \<and> timestamp \<lparr>state = ''no-such-state'', timestamp = Datetime 7\<rparr> = Datetime 7"
proof (intro conjI)
  show "TaskStatus_init (\<lambda>v. None) (Datetime 7) [(PStr ''state'', PInt 3)] = Inl ValidationError"
    using TaskStatus_construction
      [where lax_datetime = "\<lambda>v. None" and now = "Datetime 7"
         and kw = "[(PStr ''state'', PInt 3)]" and v = "PInt 3"]
    by (simp add: field_def)
  show "TaskStatus_init (\<lambda>v. None) (Datetime 7) [(PStr ''state'', PFloat (Finite 3 0))]
       = Inl ValidationError"
    using TaskStatus_construction
      [where lax_datetime = "\<lambda>v. None" and now = "Datetime 7"
         and kw = "[(PStr ''state'', PFloat (Finite 3 0))]" and v = "PFloat (Finite 3 0)"]
    by (simp add: field_def)
  show *: "TaskStatus_init (\<lambda>v. None) (Datetime 7) [(PStr ''state'', PStr ''no-such-state'')]
       = Inr \<lparr>state = ''no-such-state'', timestamp = Datetime 7\<rparr>"
    using TaskStatus_construction
      [where lax_datetime = "\<lambda>v. None" and now = "Datetime 7" and s = "''no-such-state''"]
    by simp
  show "TaskStatus_init (\<lambda>v. None) (Datetime 7) [(PStr ''state'', PBytearray ''working'')]
       = Inr \<lparr>state = ''working'', timestamp = Datetime 7\<rparr>"
    using TaskStatus_construction
      [where lax_datetime = "\<lambda>v. None" and now = "Datetime 7" and bs = "''working''"]
    by simp
  show "timestamp \<lparr>state = ''no-such-state'', timestamp = Datetime 7\<rparr> = Datetime 7"
    using TaskStatus_construction
      [where lax_datetime = "\<lambda>v. None" and now = "Datetime 7"
         and kw = "[(PStr ''state'', PStr ''no-such-state'')]"
         and st = "\<lparr>state = ''no-such-state'', timestamp = Datetime 7\<rparr>"] *
    by (simp add: field_def)
qed

text \<open>The claim as the specification words it fails: \<^verbatim>\<open>TaskStatus(state=b"working")\<close> is given
  a state that is not a str, and is constructed.\<close>

theorem TaskStatus_bytes_counterexample:
  "TaskStatus_init (\<lambda>v. None) (Datetime 0) [(PStr ''state'', PBytes ''working'')]
     = Inr \<lparr>state = ''working'', timestamp = Datetime 0\<rparr>"
  by (simp add: TaskStatus_init_def required_def with_default_def field_def from_utf8_def)

subsection \<open>TaskQueryParams\<close>






subsection \<open>TaskState\<close>

text \<open>
  Claim C6. \<^verbatim>\<open>TaskState\<close> is a closed enumeration: its members are the seven listed, their
  values are the strings \<^verbatim>\<open>submitted\<close>, \<^verbatim>\<open>working\<close>, \<^verbatim>\<open>input-required\<close>, \<^verbatim>\<open>completed\<close>,
  \<^verbatim>\<open>canceled\<close>, \<^verbatim>\<open>failed\<close> and \<^verbatim>\<open>unknown\<close> in this order, the seven values differ, and
  no member has any other value.
\<close>

theorem TaskState_values:
  "map TaskState_value TaskState_members
     = [''submitted'', ''working'', ''input-required'', ''completed'', ''canceled'', ''failed'',
        ''unknown'']
   \<and> set TaskState_members = UNIV
   \<and> distinct (map TaskState_value TaskState_members)
   \<and> range TaskState_value
     = {''submitted'', ''working'', ''input-required'', ''completed'', ''canceled'', ''failed'',
        ''unknown''}"
proof -
  have members: "set TaskState_members = UNIV"
  proof -
    have "x \<in> set TaskState_members" for x
      by (cases x) (simp_all add: TaskState_members_def)
    then show ?thesis by auto
  qed
  have vals: "map TaskState_value TaskState_members
     = [''submitted'', ''working'', ''input-required'', ''completed'', ''canceled'', ''failed'',
        ''unknown'']"
    by (simp add: TaskState_members_def)
  have "range TaskState_value = set (map TaskState_value TaskState_members)"
    using members by simp
  also have "\<dots> = {''submitted'', ''working'', ''input-required'', ''completed'', ''canceled'',
      ''failed'', ''unknown''}"
    unfolding vals by simp
  finally have range: "range TaskState_value
     = {''submitted'', ''working'', ''input-required'', ''completed'', ''canceled'', ''failed'',
        ''unknown''}" .
  have "distinct (map TaskState_value TaskState_members)"
    unfolding vals by simp
  with members vals range show ?thesis by blast
qed

subsection \<open>Task\<close>

lemma TextPart_round_trip:
  "TextPart_valid p \<Longrightarrow> validate_TextPart (TextPart_model_dump p) = Inr p"
  by (simp add: TextPart_valid_def TextPart_model_dump_def TextPart_init_def required_def
      with_default_def field_def)

lemma TextParts_round_trip:
  "list_all TextPart_valid ps \<Longrightarrow> validate_all validate_Part (map TextPart_model_dump ps) = Inr ps"
  by (induction ps) (simp_all add: TextPart_round_trip)

lemma Message_round_trip:
  assumes "Message_valid m"
  shows "validate_Message (Message_model_dump m) = Inr m"
proof -
  from assms have r: "role m = ''user'' \<or> role m = ''agent''"
    and ps: "list_all TextPart_valid (parts m)"
    by (simp_all add: Message_valid_def)
  from ps have "validate_all validate_Part (map TextPart_model_dump (parts m)) = Inr (parts m)"
    by (rule TextParts_round_trip)
  with r show ?thesis
    by (auto simp add: Message_model_dump_def Message_init_def required_def field_def)
qed

lemma Messages_round_trip:
  "list_all Message_valid ms \<Longrightarrow> validate_all validate_Message (map Message_model_dump ms) = Inr ms"
  by (induction ms) (simp_all add: Message_round_trip)

lemma TaskStatus_round_trip:
  "validate_TaskStatus lax_datetime now (TaskStatus_model_dump s) = Inr s"
  by (simp add: TaskStatus_model_dump_def TaskStatus_init_def required_def with_default_def
      field_def)

text \<open>What validation has checked: a part built from keyword arguments has the type
  \<^verbatim>\<open>"text"\<close>, and the role of a message built is one of the two literals.\<close>

lemma TextPart_init_valid:
  assumes "TextPart_init kw = Inr p"
  shows "TextPart_valid p"
proof (cases "field kw ''type''")
  case None
  with assms show ?thesis
    by (auto simp add: TextPart_init_def TextPart_valid_def with_default_def and_then_def
        split: sum.splits)
next
  case (Some v)
  with assms show ?thesis
    by (cases v)
       (auto simp add: TextPart_init_def TextPart_valid_def with_default_def and_then_def
          split: sum.splits if_splits)
qed

lemma Message_init_role:
  assumes "Message_init kw = Inr m"
  shows "role m \<in> {''user'', ''agent''}"
proof (cases "field kw ''role''")
  case None
  with assms show ?thesis by (simp add: Message_init_def required_def)
next
  case (Some v)
  with assms show ?thesis
    by (cases v)
       (auto simp add: Message_init_def required_def and_then_def split: sum.splits if_splits)
qed

lemma structural_TextPart: "structural (TextPart_model_dump p)"
  by (simp add: TextPart_model_dump_def)

lemma structural_Message: "structural (Message_model_dump m)"
  by (simp add: Message_model_dump_def structural_TextPart)

lemma structural_TaskStatus: "structural (TaskStatus_model_dump s)"
  by (simp add: TaskStatus_model_dump_def)

lemma structural_Task: "structural (Task_model_dump t)"
  by (simp add: Task_model_dump_def structural_Message structural_TaskStatus)

text \<open>
  Claim C7. The structural representation of a \<^verbatim>\<open>Task\<close> is a dict with exactly the keys
  \<^verbatim>\<open>id\<close>, \<^verbatim>\<open>status\<close> and \<^verbatim>\<open>history\<close>, and no model instance occurs anywhere in it. A valid
  task, dumped to this dict and constructed again from its items (or validated again from the
  dict), is the task it was: the same id, the same state and timestamp of its status, and the
  same history, message by message and part by part, in the same order.
\<close>

theorem Task_round_trip:
  assumes "Task_valid t"
  shows "structural (Task_model_dump t)
    \<and> (\<exists>items. Task_model_dump t = PDict items
          \<and> map fst items = [PStr ''id'', PStr ''status'', PStr ''history'']
          \<and> Task_init lax_datetime now items = Inr t)
    \<and> validate_Task lax_datetime now (Task_model_dump t) = Inr t"
proof -
  let ?items = "[(PStr ''id'', PStr (Task.id' t)),
                 (PStr ''status'', TaskStatus_model_dump (status t)),
                 (PStr ''history'', PList (map Message_model_dump (history t)))]"
  have dump: "Task_model_dump t = PDict ?items"
    by (simp add: Task_model_dump_def)
  from assms
  have "validate_all validate_Message (map Message_model_dump (history t)) = Inr (history t)"
    by (simp add: Task_valid_def Messages_round_trip)
  moreover
  have "validate_TaskStatus lax_datetime now (TaskStatus_model_dump (status t)) = Inr (status t)"
    by (rule TaskStatus_round_trip)
  ultimately have init: "Task_init lax_datetime now ?items = Inr t"
    by (simp add: Task_init_def required_def field_def)
  have "\<exists>items. Task_model_dump t = PDict items
          \<and> map fst items = [PStr ''id'', PStr ''status'', PStr ''history'']
          \<and> Task_init lax_datetime now items = Inr t"
  proof (intro exI conjI)
    show "Task_model_dump t = PDict ?items" by (rule dump)
    show "map fst ?items = [PStr ''id'', PStr ''status'', PStr ''history'']" by simp
    show "Task_init lax_datetime now ?items = Inr t" by (rule init)
  qed
  moreover from dump init have "validate_Task lax_datetime now (Task_model_dump t) = Inr t"
    by simp
  ultimately show ?thesis
    using structural_Task by blast
qed

theorem Task_round_trip_witness:
  "Task_valid \<lparr>Task.id' = ''t1'', status = \<lparr>state = ''submitted'', timestamp = Datetime 42\<rparr>,
            history = [\<lparr>role = ''user'', parts = [\<lparr>type = ''text'', text = ''hello''\<rparr>]\<rparr>,
                       \<lparr>role = ''agent'', parts = []\<rparr>]\<rparr>
   \<and> Task_model_dump
        \<lparr>Task.id' = ''t1'', status = \<lparr>state = ''submitted'', timestamp = Datetime 42\<rparr>,
         history = [\<lparr>role = ''user'', parts = [\<lparr>type = ''text'', text = ''hello''\<rparr>]\<rparr>,
                    \<lparr>role = ''agent'', parts = []\<rparr>]\<rparr>
     = PDict [(PStr ''id'', PStr ''t1''),
              (PStr ''status'', PDict [(PStr ''state'', PStr ''submitted''),
                                       (PStr ''timestamp'', PDatetime (Datetime 42))]),
              (PStr ''history'',
               PList [PDict [(PStr ''role'', PStr ''user''),
                             (PStr ''parts'', PList [PDict [(PStr ''type'', PStr ''text''),
                                                            (PStr ''text'', PStr ''hello'')]])],
                      PDict [(PStr ''role'', PStr ''agent''), (PStr ''parts'', PList [])]])]
   \<and> structural (Task_model_dump
        \<lparr>Task.id' = ''t1'', status = \<lparr>state = ''submitted'', timestamp = Datetime 42\<rparr>,
         history = [\<lparr>role = ''user'', parts = [\<lparr>type = ''text'', text = ''hello''\<rparr>]\<rparr>,
                    \<lparr>role = ''agent'', parts = []\<rparr>]\<rparr>)
   \<and> validate_Task (\<lambda>v. None) (Datetime 0)
       (Task_model_dump
         \<lparr>Task.id' = ''t1'', status = \<lparr>state = ''submitted'', timestamp = Datetime 42\<rparr>,
          history = [\<lparr>role = ''user'', parts = [\<lparr>type = ''text'', text = ''hello''\<rparr>]\<rparr>,
                     \<lparr>role = ''agent'', parts = []\<rparr>]\<rparr>)
     = Inr \<lparr>Task.id' = ''t1'', status = \<lparr>state = ''submitted'', timestamp = Datetime 42\<rparr>,
            history = [\<lparr>role = ''user'', parts = [\<lparr>type = ''text'', text = ''hello''\<rparr>]\<rparr>,
                       \<lparr>role = ''agent'', parts = []\<rparr>]\<rparr>"
proof -
  let ?t = "\<lparr>Task.id' = ''t1'', status = \<lparr>state = ''submitted'', timestamp = Datetime 42\<rparr>,
            history = [\<lparr>role = ''user'', parts = [\<lparr>type = ''text'', text = ''hello''\<rparr>]\<rparr>,
                       \<lparr>role = ''agent'', parts = []\<rparr>]\<rparr>"
  have v: "Task_valid ?t"
    by (simp add: Task_valid_def Message_valid_def TextPart_valid_def)
  have d: "Task_model_dump ?t
     = PDict [(PStr ''id'', PStr ''t1''),
              (PStr ''status'', PDict [(PStr ''state'', PStr ''submitted''),
                                       (PStr ''timestamp'', PDatetime (Datetime 42))]),
              (PStr ''history'',
               PList [PDict [(PStr ''role'', PStr ''user''),
                             (PStr ''parts'', PList [PDict [(PStr ''type'', PStr ''text''),
                                                            (PStr ''text'', PStr ''hello'')]])],
                      PDict [(PStr ''role'', PStr ''agent''), (PStr ''parts'', PList [])]])]"
    by (simp add: Task_model_dump_def TaskStatus_model_dump_def Message_model_dump_def
        TextPart_model_dump_def)
  from Task_round_trip [OF v, of "\<lambda>v. None" "Datetime 0"]
  have "structural (Task_model_dump ?t)"
    and "validate_Task (\<lambda>v. None) (Datetime 0) (Task_model_dump ?t) = Inr ?t"
    by blast+
  with v d show ?thesis by blast
qed

subsection \<open>TaskSendParams\<close>

lemma hex_length: "length (hex i) = 32"
  by (simp add: hex_def)

lemma nibble_less: "unat (w AND (0xf :: 128 word)) < 16"
proof -
  have "unat (w AND 0xf) \<le> unat (0xf :: 128 word)"
    by (rule word_and_le1 [THEN word_le_nat_alt [THEN iffD1]])
  then show ?thesis by simp
qed

lemma hex_digit_in: "d < 16 \<Longrightarrow> hex_digit d \<in> set ''0123456789abcdef''"
  unfolding hex_digit_def by (rule nth_mem) simp

lemma hex_chars: "set (hex i) \<subseteq> set ''0123456789abcdef''"
  unfolding hex_def using hex_digit_in [OF nibble_less] by auto

lemma hex_digit_inj: "a < 16 \<Longrightarrow> b < 16 \<Longrightarrow> hex_digit a = hex_digit b \<Longrightarrow> a = b"
  unfolding hex_digit_def
  by (subst (asm) nth_eq_iff_index_eq) simp_all

lemma nibble_bit:
  "bit (drop_bit (4 * k) w AND (0xf :: 128 word)) j \<longleftrightarrow> j < 4 \<and> bit w (4 * k + j)"
proof -
  have m: "(0xf :: 128 word) = mask 4" by (simp add: mask_eq_exp_minus_1)
  show ?thesis
    unfolding m by (auto simp add: bit_and_iff bit_drop_bit_eq bit_mask_iff)
qed

text \<open>Two numbers with the same 32 digits are the same number: each bit is a bit of one digit.\<close>

lemma hex_inj:
  assumes "hex a = hex b"
  shows "a = b"
proof (rule bit_word_eqI)
  fix n
  assume n: "n < LENGTH(128)"
  define k where "k = n div 4"
  have k: "k \<in> set (rev [0..<32])" using n by (simp add: k_def)
  from assms have "hex_digit (unat (drop_bit (4 * k) a AND 0xf))
      = hex_digit (unat (drop_bit (4 * k) b AND 0xf))"
    unfolding hex_def map_eq_conv using k by blast
  then have "unat (drop_bit (4 * k) a AND 0xf) = unat (drop_bit (4 * k) b AND 0xf)"
    by (rule hex_digit_inj [OF nibble_less nibble_less])
  then have "drop_bit (4 * k) a AND 0xf = drop_bit (4 * k) b AND 0xf"
    by (simp add: word_unat_eq_iff)
  then have "bit (drop_bit (4 * k) a AND 0xf) (n mod 4) = bit (drop_bit (4 * k) b AND 0xf) (n mod 4)"
    by simp
  then show "bit a n = bit b n"
    by (simp add: nibble_bit k_def)
qed

lemma masked_eq:
  fixes x y m c :: "'a::len word"
  assumes "c AND m = 0"
  shows "(x AND m) OR c = (y AND m) OR c \<longleftrightarrow> x AND m = y AND m"
proof
  assume "(x AND m) OR c = (y AND m) OR c"
  then have "((x AND m) OR c) AND m = ((y AND m) OR c) AND m" by simp
  then show "x AND m = y AND m"
    using assms by (simp add: bit.conj_disj_distrib2 and.assoc)
next
  assume "x AND m = y AND m"
  then show "(x AND m) OR c = (y AND m) OR c" by simp
qed

text \<open>\<^verbatim>\<open>uuid4\<close> keeps every random bit but the six it overwrites.\<close>

lemma uuid4_masked:
  "uuid4 r = (r AND NOT (push_bit 48 0xc000 OR push_bit 64 0xf000))
               OR (push_bit 48 0x8000 OR push_bit 76 4)"
proof -
  have "uuid4 r = (((r AND NOT (push_bit 48 0xc000)) OR push_bit 48 0x8000)
                     AND NOT (push_bit 64 0xf000)) OR push_bit 76 4"
    by (simp add: uuid4_def Let_def)
  also have "\<dots> = ((r AND (NOT (push_bit 48 0xc000) AND NOT (push_bit 64 0xf000)))
                     OR (push_bit 48 0x8000 AND NOT (push_bit 64 0xf000))) OR push_bit 76 4"
    by (simp only: bit.conj_disj_distrib2 and.assoc)
  also have "NOT (push_bit 48 0xc000) AND NOT (push_bit 64 0xf000)
      = (NOT (push_bit 48 0xc000 OR push_bit 64 0xf000) :: 128 word)"
    by (simp only: bit.de_Morgan_disj)
  also have "push_bit 48 0x8000 AND NOT (push_bit 64 0xf000) = (push_bit 48 0x8000 :: 128 word)"
    by simp
  finally show ?thesis by (simp only: or.assoc)
qed

lemma uuid4_eq_iff:
  "uuid4 r1 = uuid4 r2 \<longleftrightarrow>
     r1 AND NOT (push_bit 48 0xc000 OR push_bit 64 0xf000)
       = r2 AND NOT (push_bit 48 0xc000 OR push_bit 64 0xf000)"
proof -
  have "(push_bit 48 0x8000 OR push_bit 76 4) AND NOT (push_bit 48 0xc000 OR push_bit 64 0xf000)
      = (0 :: 128 word)"
    by simp
  then show ?thesis
    unfolding uuid4_masked by (rule masked_eq)
qed

lemma TaskSendParams_default_sessionId:
  assumes "field kw ''sessionId'' = None" and "TaskSendParams_init lax_int random kw = Inr t"
  shows "sessionId t = hex (uuid4 random)"
  using assms unfolding TaskSendParams_init_def
  by (auto simp add: and_then_def with_default_def split: sum.splits)

lemma TaskSendParams_minimal:
  assumes "field kw ''id'' = Some (PStr i)" and "field kw ''sessionId'' = None"
    and "field kw ''message'' = Some (PMessage m)" and "field kw ''historyLength'' = None"
    and "field kw ''metadata'' = None"
  shows "TaskSendParams_init lax_int random kw
     = Inr \<lparr>TaskSendParams.id' = i, sessionId = hex (uuid4 random), message = m,
          TaskSendParams.historyLength = None, TaskSendParams.metadata = None\<rparr>"
  using assms by (simp add: TaskSendParams_init_def required_def with_default_def)

lemma hex_uuid4_5: "hex (uuid4 5) = ''00000000000040008000000000000005''"
  by code_simp

lemma hex_uuid4_6: "hex (uuid4 6) = ''00000000000040008000000000000006''"
  by code_simp

text \<open>
  Claim C4, as the code has it. When \<^verbatim>\<open>sessionId\<close> is omitted, the session id of the
  \<^verbatim>\<open>TaskSendParams\<close> constructed is the hexadecimal text of a version-4 UUID made from the
  random bytes drawn: 32 characters, each a digit or a letter from a to f. Such a construction
  succeeds as soon as the id is a str and the message is a \<^verbatim>\<open>Message\<close>. Two such
  constructions yield different session ids exactly when their random draws differ in a bit
  other than the six that \<^verbatim>\<open>uuid4\<close> overwrites: nothing but the randomness of the draw keeps
  two session ids apart.
\<close>

theorem TaskSendParams_sessionId:
  "(field kw ''sessionId'' = None \<and> TaskSendParams_init lax_int random kw = Inr t
      \<longrightarrow> sessionId t = hex (uuid4 random) \<and> length (sessionId t) = 32
          \<and> set (sessionId t) \<subseteq> set ''0123456789abcdef'')
   \<and> (field kw ''id'' = Some (PStr i) \<and> field kw ''sessionId'' = None
        \<and> field kw ''message'' = Some (PMessage m) \<and> field kw ''historyLength'' = None
        \<and> field kw ''metadata'' = None
      \<longrightarrow> TaskSendParams_init lax_int random kw
          = Inr \<lparr>TaskSendParams.id' = i, sessionId = hex (uuid4 random), message = m,
                 TaskSendParams.historyLength = None, TaskSendParams.metadata = None\<rparr>)
   \<and> (field kw ''sessionId'' = None \<and> TaskSendParams_init lax_int random kw = Inr t
        \<and> field kw' ''sessionId'' = None \<and> TaskSendParams_init lax_int' random' kw' = Inr t'
      \<longrightarrow> (sessionId t \<noteq> sessionId t'
            \<longleftrightarrow> random AND NOT (push_bit 48 0xc000 OR push_bit 64 0xf000)
                  \<noteq> random' AND NOT (push_bit 48 0xc000 OR push_bit 64 0xf000)))"
proof (intro conjI impI)
  assume a: "field kw ''sessionId'' = None \<and> TaskSendParams_init lax_int random kw = Inr t"
  then show sid: "sessionId t = hex (uuid4 random)"
    by (blast intro: TaskSendParams_default_sessionId)
  show "length (sessionId t) = 32"
    unfolding sid by (rule hex_length)
  show "set (sessionId t) \<subseteq> set ''0123456789abcdef''"
    unfolding sid by (rule hex_chars)
next
  assume "field kw ''id'' = Some (PStr i) \<and> field kw ''sessionId'' = None
        \<and> field kw ''message'' = Some (PMessage m) \<and> field kw ''historyLength'' = None
        \<and> field kw ''metadata'' = None"
  then show "TaskSendParams_init lax_int random kw
          = Inr \<lparr>TaskSendParams.id' = i, sessionId = hex (uuid4 random), message = m,
                 TaskSendParams.historyLength = None, TaskSendParams.metadata = None\<rparr>"
    by (blast intro: TaskSendParams_minimal)
next
  assume a: "field kw ''sessionId'' = None \<and> TaskSendParams_init lax_int random kw = Inr t
        \<and> field kw' ''sessionId'' = None \<and> TaskSendParams_init lax_int' random' kw' = Inr t'"
  then have "sessionId t = hex (uuid4 random)" and "sessionId t' = hex (uuid4 random')"
    by (blast intro: TaskSendParams_default_sessionId)+
  then have "sessionId t = sessionId t' \<longleftrightarrow> uuid4 random = uuid4 random'"
    by (auto dest: hex_inj)
  then show "sessionId t \<noteq> sessionId t'
            \<longleftrightarrow> random AND NOT (push_bit 48 0xc000 OR push_bit 64 0xf000)
                  \<noteq> random' AND NOT (push_bit 48 0xc000 OR push_bit 64 0xf000)"
    by (simp only: uuid4_eq_iff)
qed

theorem TaskSendParams_sessionId_witness:
  "TaskSendParams_init (\<lambda>v. None) 5
       [(PStr ''id'', PStr ''t1''), (PStr ''message'', PMessage \<lparr>role = ''user'', parts = []\<rparr>)]
     = Inr \<lparr>TaskSendParams.id' = ''t1'', sessionId = ''00000000000040008000000000000005'',
            message = \<lparr>role = ''user'', parts = []\<rparr>,
            TaskSendParams.historyLength = None, TaskSendParams.metadata = None\<rparr>
   \<and> length ''00000000000040008000000000000005'' = 32
   \<and> set ''00000000000040008000000000000005'' \<subseteq> set ''0123456789abcdef''
   \<and> ''00000000000040008000000000000005'' \<noteq> ''00000000000040008000000000000006''"
proof -
  let ?kw = "\<lambda>i. [(PStr ''id'', PStr i), (PStr ''message'', PMessage \<lparr>role = ''user'', parts = []\<rparr>)]"
  let ?t = "\<lambda>i sid. \<lparr>TaskSendParams.id' = i, sessionId = sid,
            message = \<lparr>role = ''user'', parts = []\<rparr>,
            TaskSendParams.historyLength = None, TaskSendParams.metadata = None\<rparr>"
  have 1: "TaskSendParams_init (\<lambda>v. None) 5 (?kw ''t1'')
      = Inr (?t ''t1'' ''00000000000040008000000000000005'')"
    using TaskSendParams_sessionId
      [where kw = "?kw ''t1''" and i = "''t1''" and m = "\<lparr>role = ''user'', parts = []\<rparr>"
         and lax_int = "\<lambda>v. None" and random = 5]
    by (simp add: field_def hex_uuid4_5)
  have 2: "TaskSendParams_init (\<lambda>v. None) 6 (?kw ''t2'')
      = Inr (?t ''t2'' ''00000000000040008000000000000006'')"
    using TaskSendParams_sessionId
      [where kw = "?kw ''t2''" and i = "''t2''" and m = "\<lparr>role = ''user'', parts = []\<rparr>"
         and lax_int = "\<lambda>v. None" and random = 6]
    by (simp add: field_def hex_uuid4_6)
  have 3: "length ''00000000000040008000000000000005'' = 32
      \<and> set ''00000000000040008000000000000005'' \<subseteq> set ''0123456789abcdef''"
    using TaskSendParams_sessionId
      [where kw = "?kw ''t1''" and lax_int = "\<lambda>v. None" and random = 5
         and t = "?t ''t1'' ''00000000000040008000000000000005''"] 1
    by (simp add: field_def hex_uuid4_5)
  have 4: "''00000000000040008000000000000005'' \<noteq> ''00000000000040008000000000000006''"
    using TaskSendParams_sessionId
      [where kw = "?kw ''t1''" and lax_int = "\<lambda>v. None" and random = 5
         and t = "?t ''t1'' ''00000000000040008000000000000005''"
         and kw' = "?kw ''t2''" and lax_int' = "\<lambda>v. None" and random' = 6
         and t' = "?t ''t2'' ''00000000000040008000000000000006''"] 1 2
    by (simp add: field_def hex_uuid4_5 hex_uuid4_6)
  from 1 3 4 show ?thesis by simp
qed

text \<open>The claim as the specification words it fails: two constructions without a session id,
  whose random draws differ only in a bit that \<^verbatim>\<open>uuid4\<close> overwrites (or do not differ), yield
  the same session id.\<close>

theorem TaskSendParams_collision_counterexample:
  "TaskSendParams_init (\<lambda>v. None) 0
       [(PStr ''id'', PStr ''t1''), (PStr ''message'', PMessage \<lparr>role = ''user'', parts = []\<rparr>)]
     = Inr \<lparr>TaskSendParams.id' = ''t1'', sessionId = ''00000000000040008000000000000000'',
            message = \<lparr>role = ''user'', parts = []\<rparr>,
            TaskSendParams.historyLength = None, TaskSendParams.metadata = None\<rparr>
   \<and> TaskSendParams_init (\<lambda>v. None) (push_bit 76 1)
       [(PStr ''id'', PStr ''t2''), (PStr ''message'', PMessage \<lparr>role = ''user'', parts = []\<rparr>)]
     = Inr \<lparr>TaskSendParams.id' = ''t2'', sessionId = ''00000000000040008000000000000000'',
            message = \<lparr>role = ''user'', parts = []\<rparr>,
            TaskSendParams.historyLength = None, TaskSendParams.metadata = None\<rparr>"
proof -
  have "hex (uuid4 0) = ''00000000000040008000000000000000''"
    by code_simp
  moreover have "hex (uuid4 (push_bit 76 1)) = ''00000000000040008000000000000000''"
    by code_simp
  ultimately show ?thesis
    by (simp add: TaskSendParams_init_def required_def with_default_def field_def)
qed

end
